theory Spec2Isabelle
  imports Complex_Main "HOL-Library.Word"
begin

section \<open>JavaScript values used by server.js\<close>

text \<open>
  A JavaScript string is a sequence of UTF-16 code units. The stream is decoded before
  \<^verbatim>\<open>_onData\<close> sees it (\<^verbatim>\<open>process.stdin.setEncoding('utf8')\<close>), so a chunk is a
  string, and \<^verbatim>\<open>indexOf\<close>, \<^verbatim>\<open>slice\<close> and \<^verbatim>\<open>trim\<close> count code units.
\<close>

type_synonym code_unit = "16 word"
type_synonym jsstring = "code_unit list"

definition lit :: "string \<Rightarrow> jsstring" where
  "lit s = map of_char s"

text \<open>
  Numbers are IEEE doubles. Nothing in the modelled code computes with them: it tests
  whether one is truthy, uses it as a \<^verbatim>\<open>Map\<close> key and hands it on. A finite double is
  the rational it denotes; \<^verbatim>\<open>-0\<close> is \<open>Fin 0\<close>, as truthiness and the key comparison of
  \<^verbatim>\<open>Map\<close> (SameValueZero) do not tell it from \<^verbatim>\<open>0\<close>.
\<close>

datatype number = Fin rat | PosInfinity | NegInfinity | NaN

text \<open>
  The values that \<^verbatim>\<open>JSON.parse\<close> returns, and \<^verbatim>\<open>undefined\<close>, which is what reading a
  missing property gives and what a handler with no \<^verbatim>\<open>return\<close> resolves to. An object is
  the list of its own properties, in insertion order, each key once.
\<close>

datatype jsval =
    JUndefined
  | JNull
  | JBool bool
  | JNum number
  | JStr jsstring
  | JArr "jsval list"
  | JObj "(jsstring \<times> jsval) list"

datatype js_error = TypeError

text \<open>\<^verbatim>\<open>if (v)\<close>, \<^verbatim>\<open>v || w\<close>, \<^verbatim>\<open>!v\<close>: the falsy values are \<^verbatim>\<open>undefined\<close>, \<^verbatim>\<open>null\<close>,
  \<^verbatim>\<open>false\<close>, \<^verbatim>\<open>0\<close>, \<^verbatim>\<open>NaN\<close> and the empty string.\<close>

fun truthy :: "jsval \<Rightarrow> bool" where
  "truthy JUndefined = False"
| "truthy JNull = False"
| "truthy (JBool b) = b"
| "truthy (JNum n) = (n \<noteq> Fin 0 \<and> n \<noteq> NaN)"
| "truthy (JStr s) = (s \<noteq> [])"
| "truthy (JArr xs) = True"
| "truthy (JObj ps) = True"

text \<open>
  Reading one of the properties \<^verbatim>\<open>method\<close>, \<^verbatim>\<open>id\<close>, \<^verbatim>\<open>params\<close> (the only ones the code
  reads from a message): a \<^verbatim>\<open>TypeError\<close> on \<^verbatim>\<open>null\<close> and \<^verbatim>\<open>undefined\<close>, the own property
  of an object, and \<^verbatim>\<open>undefined\<close> everywhere else, since no prototype defines these three
  names.
\<close>

fun field :: "jsval \<Rightarrow> jsstring \<Rightarrow> js_error + jsval" where
  "field JUndefined k = Inl TypeError"
| "field JNull k = Inl TypeError"
| "field (JObj ps) k = (case map_of ps k of None \<Rightarrow> Inr JUndefined | Some v \<Rightarrow> Inr v)"
| "field v k = Inr JUndefined"

text \<open>
  A \<^verbatim>\<open>Map\<close> compares keys by SameValueZero: primitives by value, objects and arrays by
  reference. A key read from a freshly parsed message is a new object, so it is equal to
  no key already in the map.
\<close>

definition by_reference :: "jsval \<Rightarrow> bool" where
  "by_reference k = (case k of JArr xs \<Rightarrow> True | JObj ps \<Rightarrow> True | _ \<Rightarrow> False)"

definition Map_get :: "(jsval \<rightharpoonup> 'a) \<Rightarrow> jsval \<Rightarrow> 'a option" where
  "Map_get m k = (if by_reference k then None else m k)"

definition Map_has :: "(jsval \<rightharpoonup> 'a) \<Rightarrow> jsval \<Rightarrow> bool" where
  "Map_has m k = (Map_get m k \<noteq> None)"

definition Map_set :: "(jsval \<rightharpoonup> 'a) \<Rightarrow> jsval \<Rightarrow> 'a \<Rightarrow> (jsval \<rightharpoonup> 'a)" where
  "Map_set m k v = m(k \<mapsto> v)"

definition Map_delete :: "(jsval \<rightharpoonup> 'a) \<Rightarrow> jsval \<Rightarrow> (jsval \<rightharpoonup> 'a)" where
  "Map_delete m k = (if by_reference k then m else m(k := None))"

subsection \<open>String operations\<close>

definition newline :: code_unit where
  "newline = 0x0A"

text \<open>\<^verbatim>\<open>String.prototype.trim\<close> strips WhiteSpace and LineTerminator code units.\<close>

definition is_ws :: "code_unit \<Rightarrow> bool" where
  "is_ws c = (c = 0x09 \<or> c = 0x0A \<or> c = 0x0B \<or> c = 0x0C \<or> c = 0x0D \<or> c = 0x20
     \<or> c = 0xA0 \<or> c = 0x1680 \<or> (0x2000 \<le> c \<and> c \<le> 0x200A) \<or> c = 0x2028 \<or> c = 0x2029
     \<or> c = 0x202F \<or> c = 0x205F \<or> c = 0x3000 \<or> c = 0xFEFF)"

definition trim :: "jsstring \<Rightarrow> jsstring" where
  "trim s = rev (dropWhile is_ws (rev (dropWhile is_ws s)))"

text \<open>\<^verbatim>\<open>s.indexOf(c)\<close>: the first position of \<open>c\<close>, or \<open>-1\<close>.\<close>

definition indexOf :: "jsstring \<Rightarrow> code_unit \<Rightarrow> int" where
  "indexOf s c = (if c \<in> set s then int (length (takeWhile (\<lambda>x. x \<noteq> c) s)) else -1)"

text \<open>\<^verbatim>\<open>s.slice(i, j)\<close> and \<^verbatim>\<open>s.slice(i)\<close>, for the indices the code passes: \<open>0 \<le> i \<le> j\<close>.\<close>

definition slice :: "jsstring \<Rightarrow> int \<Rightarrow> int \<Rightarrow> jsstring" where
  "slice s i j = take (nat j - nat i) (drop (nat i) s)"

definition slice_from :: "jsstring \<Rightarrow> int \<Rightarrow> jsstring" where
  "slice_from s i = drop (nat i) s"

text \<open>
  \<^verbatim>\<open>'...' + v\<close>: a string operand is appended as it is. Any other value goes through
  the runtime's \<^verbatim>\<open>ToString\<close>, a parameter here; \<open>None\<close> is the \<^verbatim>\<open>TypeError\<close> it throws
  on an object whose own \<^verbatim>\<open>toString\<close> and \<^verbatim>\<open>valueOf\<close> properties are not callable.
\<close>

definition plus_string :: "(jsval \<Rightarrow> jsstring option) \<Rightarrow> jsstring \<Rightarrow> jsval \<Rightarrow> js_error + jsstring" where
  "plus_string toStr s v =
     (case v of
        JStr t \<Rightarrow> Inr (s @ t)
      | _ \<Rightarrow> (case toStr v of None \<Rightarrow> Inl TypeError | Some t \<Rightarrow> Inr (s @ t)))"

section \<open>State and observable effects\<close>

text \<open>
  A handler is an async function of the params. It resolves to a value, rejects (or
  throws) with some value of a type \<open>'e\<close> the server never inspects, or never settles.
\<close>

datatype 'e outcome = Returned jsval | Raised 'e | NeverSettles

type_synonym 'e handler = "jsval \<Rightarrow> 'e outcome"

text \<open>
  What the code does to the outside, one constructor per statement with an effect:
  \<^item> \<open>LogInvalidJSON line\<close>: \<^verbatim>\<open>console.error('[ERROR] Invalid JSON from client:', line)\<close>;
  \<^item> \<open>HandleMessage obj\<close>: the call \<^verbatim>\<open>this._handleMessage(obj)\<close> made by \<^verbatim>\<open>_onData\<close>;
  \<^item> \<open>Resolve r msg\<close>: the call \<^verbatim>\<open>resolver(msg)\<close> of a pending completion callback,
    of a type \<open>'c\<close> the transport never inspects;
  \<^item> \<open>Invoke method params\<close>: the call \<^verbatim>\<open>this.handlers.get(method)(params || {})\<close>;
  \<^item> \<open>LogHandlerThrew err\<close>: \<^verbatim>\<open>console.error('[ERROR] handler threw', err)\<close>;
  \<^item> \<open>StdoutWrite obj\<close>: \<^verbatim>\<open>process.stdout.write(JSON.stringify(obj) + '\n')\<close>;
  \<^item> \<open>Rejected err\<close>: the promise of \<^verbatim>\<open>_onRequest\<close> rejects, and no code handles it;
    what the runtime does about it afterwards is not modelled.

  The effects of one request are listed together, in the order in which the code
  produces them. In a run, the replies of different requests may be written in another
  order, as each waits for its own handler.
\<close>

datatype ('e, 'c) event =
    LogInvalidJSON jsstring
  | HandleMessage jsval
  | Resolve 'c jsval
  | Invoke jsval jsval
  | LogHandlerThrew 'e
  | StdoutWrite jsval
  | Rejected js_error

record 'c JsonRpcStdio =
  pending :: "jsval \<rightharpoonup> 'c"
  buffer :: jsstring
  onRequest :: bool

record ('e, 'c) MCPServer =
  name :: jsval
  version :: jsval
  capabilities :: jsval
  handlers :: "jsval \<rightharpoonup> 'e handler"
  transport :: "'c JsonRpcStdio"

text \<open>
  The result of a step: its effects and either the state after it or the exception it
  throws. Nothing in \<^verbatim>\<open>_onData\<close> catches what \<^verbatim>\<open>_handleMessage\<close> throws.
\<close>

type_synonym ('e, 'c) step = "('e, 'c) event list \<times> (js_error + ('e, 'c) MCPServer)"

definition prepend :: "('e, 'c) event list \<Rightarrow> ('e, 'c) step \<Rightarrow> ('e, 'c) step" where
  "prepend es r = (es @ fst r, snd r)"

definition and_then :: "('e, 'c) step \<Rightarrow> (('e, 'c) MCPServer \<Rightarrow> ('e, 'c) step) \<Rightarrow> ('e, 'c) step" where
  "and_then r f = (case snd r of Inl err \<Rightarrow> r | Inr srv \<Rightarrow> prepend (fst r) (f srv))"

section \<open>class JsonRpcStdio and class MCPServer\<close>

definition JsonRpcStdio_new :: "'c JsonRpcStdio" where
  "JsonRpcStdio_new = \<lparr>pending = Map.empty, buffer = [], onRequest = False\<rparr>"

text \<open>The constructor of \<^verbatim>\<open>MCPServer\<close> installs \<^verbatim>\<open>onRequest\<close> on its transport.\<close>

definition MCPServer_new :: "jsval \<Rightarrow> jsval \<Rightarrow> jsval \<Rightarrow> ('e, 'c) MCPServer" where
  "MCPServer_new n v caps =
     \<lparr>name = n, version = v, capabilities = caps, handlers = Map.empty,
      transport = JsonRpcStdio_new\<lparr>onRequest := True\<rparr>\<rparr>"

definition setHandler :: "('e, 'c) MCPServer \<Rightarrow> jsval \<Rightarrow> 'e handler \<Rightarrow> ('e, 'c) MCPServer" where
  "setHandler srv method fn = srv\<lparr>handlers := Map_set (handlers srv) method fn\<rparr>"

definition send :: "jsval \<Rightarrow> ('e, 'c) event list" where
  "send obj = [StdoutWrite obj]"

text \<open>The text that \<^verbatim>\<open>send\<close> writes, given the runtime's \<^verbatim>\<open>JSON.stringify\<close>.\<close>

definition serialized :: "(jsval \<Rightarrow> jsstring) \<Rightarrow> jsval \<Rightarrow> jsstring" where
  "serialized stringify obj = stringify obj @ [newline]"

fun stdout_text :: "(jsval \<Rightarrow> jsstring) \<Rightarrow> ('e, 'c) event list \<Rightarrow> jsstring" where
  "stdout_text stringify [] = []"
| "stdout_text stringify (StdoutWrite obj # es) = serialized stringify obj @ stdout_text stringify es"
| "stdout_text stringify (e # es) = stdout_text stringify es"

text \<open>\<^verbatim>\<open>const { id, method, params } = msg\<close>\<close>

definition destructure :: "jsval \<Rightarrow> js_error + (jsval \<times> jsval \<times> jsval)" where
  "destructure msg =
     (case field msg (lit ''id'') of
        Inl err \<Rightarrow> Inl err
      | Inr i \<Rightarrow>
          (case field msg (lit ''method'') of
             Inl err \<Rightarrow> Inl err
           | Inr m \<Rightarrow>
               (case field msg (lit ''params'') of
                  Inl err \<Rightarrow> Inl err
                | Inr p \<Rightarrow> Inr (i, m, p))))"

definition method_not_found :: "jsval \<Rightarrow> jsstring \<Rightarrow> jsval" where
  "method_not_found i message =
     JObj [(lit ''jsonrpc'', JStr (lit ''2.0'')), (lit ''id'', i),
           (lit ''error'', JObj [(lit ''code'', JNum (Fin (- 32601))),
                                 (lit ''message'', JStr message)])]"

definition success_reply :: "jsval \<Rightarrow> jsval \<Rightarrow> jsval" where
  "success_reply i result =
     JObj [(lit ''jsonrpc'', JStr (lit ''2.0'')), (lit ''id'', i), (lit ''result'', result)]"

definition internal_error :: "jsval \<Rightarrow> jsval" where
  "internal_error i =
     JObj [(lit ''jsonrpc'', JStr (lit ''2.0'')), (lit ''id'', i),
           (lit ''error'', JObj [(lit ''code'', JNum (Fin (- 32603))),
                                 (lit ''message'', JStr (lit ''Internal error''))])]"

text \<open>
  \<^verbatim>\<open>async _onRequest(msg)\<close>. An exception outside the \<^verbatim>\<open>try\<close> rejects the promise the
  method returns; its caller drops that promise. \<^verbatim>\<open>has\<close> and \<^verbatim>\<open>get\<close> look the same key
  up in the same \<^verbatim>\<open>Map\<close>, so they are one lookup here.
\<close>

definition MCPServer_onRequest ::
  "(jsval \<Rightarrow> jsstring option) \<Rightarrow> ('e, 'c) MCPServer \<Rightarrow> jsval \<Rightarrow> ('e, 'c) event list \<times> ('e, 'c) MCPServer" where
  "MCPServer_onRequest toStr srv msg =
     (case destructure msg of
        Inl err \<Rightarrow> ([Rejected err], srv)
      | Inr (i, method, params) \<Rightarrow>
          (case Map_get (handlers srv) method of
             None \<Rightarrow>
               (case plus_string toStr (lit ''Method not found: '') method of
                  Inl err \<Rightarrow> ([Rejected err], srv)
                | Inr message \<Rightarrow> (send (method_not_found i message), srv))
           | Some fn \<Rightarrow>
               (let args = (if truthy params then params else JObj [])
                in (Invoke method args #
                    (case fn args of
                       Returned result \<Rightarrow> send (success_reply i result)
                     | Raised err \<Rightarrow> LogHandlerThrew err # send (internal_error i)
                     | NeverSettles \<Rightarrow> []), srv))))"

text \<open>\<^verbatim>\<open>_handleMessage(msg)\<close>. The promise of \<^verbatim>\<open>onRequest\<close> is not awaited.\<close>

definition handleMessage ::
  "(jsval \<Rightarrow> jsstring option) \<Rightarrow> ('e, 'c) MCPServer \<Rightarrow> jsval \<Rightarrow> ('e, 'c) step" where
  "handleMessage toStr srv msg =
     (case field msg (lit ''method'') of
        Inl err \<Rightarrow> ([], Inl err)
      | Inr method \<Rightarrow>
          if truthy method then
            (if onRequest (transport srv)
             then (case MCPServer_onRequest toStr srv msg of (es, srv') \<Rightarrow> (es, Inr srv'))
             else ([], Inr srv))
          else
            (case field msg (lit ''id'') of
               Inl err \<Rightarrow> ([], Inl err)
             | Inr i \<Rightarrow>
                 if truthy i then
                   (case Map_get (pending (transport srv)) i of
                      None \<Rightarrow> ([], Inr srv)
                    | Some resolver \<Rightarrow>
                        ([Resolve resolver msg],
                         Inr (srv\<lparr>transport := (transport srv)
                                \<lparr>pending := Map_delete (pending (transport srv)) i\<rparr>\<rparr>)))
                 else ([], Inr srv)))"

text \<open>The assignment \<^verbatim>\<open>this.buffer = b\<close> of the transport the server owns.\<close>

definition set_buffer :: "('e, 'c) MCPServer \<Rightarrow> jsstring \<Rightarrow> ('e, 'c) MCPServer" where
  "set_buffer srv b = srv\<lparr>transport := (transport srv)\<lparr>buffer := b\<rparr>\<rparr>"

text \<open>
  The \<^verbatim>\<open>while\<close> loop of \<^verbatim>\<open>_onData\<close>. \<open>parse\<close> is the runtime's \<^verbatim>\<open>JSON.parse\<close>, with
  \<open>None\<close> for the \<^verbatim>\<open>SyntaxError\<close> that the \<^verbatim>\<open>catch\<close> absorbs.
\<close>

function drain ::
  "(jsstring \<Rightarrow> jsval option) \<Rightarrow> (jsval \<Rightarrow> jsstring option) \<Rightarrow> ('e, 'c) MCPServer \<Rightarrow> ('e, 'c) step" where
  "drain parse toStr srv =
     (let buf = buffer (transport srv); idx = indexOf buf newline in
      if idx \<noteq> - 1 then
        (let line = trim (slice buf 0 idx);
             srv1 = set_buffer srv (slice_from buf (idx + 1))
         in if line = [] then drain parse toStr srv1
            else
              (case parse line of
                 None \<Rightarrow> prepend [LogInvalidJSON line] (drain parse toStr srv1)
               | Some obj \<Rightarrow>
                   (case handleMessage toStr srv1 obj of
                      (es, Inl err) \<Rightarrow> (HandleMessage obj # es, Inl err)
                    | (es, Inr srv2) \<Rightarrow>
                        prepend (HandleMessage obj # es) (drain parse toStr srv2))))
      else ([], Inr srv))"
  by pat_completeness auto

termination
proof (relation "measure (\<lambda>(parse, toStr, srv). length (buffer (transport srv)))", goal_cases)
  case 1
  show ?case by simp
next
  case (2 parse toStr srv buf idx line srv1)
  then have "buf \<noteq> []" and "0 < nat (idx + 1)"
    by (auto simp: indexOf_def split: if_splits)
  with 2 show ?case
    by (simp add: slice_from_def set_buffer_def)
next
  case (3 parse toStr srv buf idx line srv1)
  then have "buf \<noteq> []" and "0 < nat (idx + 1)"
    by (auto simp: indexOf_def split: if_splits)
  with 3 show ?case
    by (simp add: slice_from_def set_buffer_def)
next
  case (4 parse toStr srv buf idx line srv1 obj es y srv2)
  then have "buf \<noteq> []" and "0 < nat (idx + 1)"
    by (auto simp: indexOf_def split: if_splits)
  moreover from 4 have "handleMessage toStr srv1 obj = (es, Inr srv2)"
    by simp
  then have "buffer (transport srv2) = buffer (transport srv1)"
    by (auto simp: handleMessage_def MCPServer_onRequest_def Let_def
        split: sum.splits prod.splits option.splits if_splits)
  ultimately show ?case
    using 4 by (simp add: slice_from_def set_buffer_def)
qed

declare drain.simps [simp del]

text \<open>\<^verbatim>\<open>_onData(chunk)\<close>: \<^verbatim>\<open>this.buffer += chunk\<close>, then the loop.\<close>

definition onData ::
  "(jsstring \<Rightarrow> jsval option) \<Rightarrow> (jsval \<Rightarrow> jsstring option) \<Rightarrow> ('e, 'c) MCPServer \<Rightarrow> jsstring \<Rightarrow> ('e, 'c) step" where
  "onData parse toStr srv chunk =
     drain parse toStr (set_buffer srv (buffer (transport srv) @ chunk))"

text \<open>
  The calls \<^verbatim>\<open>_onData(c1); _onData(c2); ...\<close> made one after the other, as the \<^verbatim>\<open>'data'\<close>
  listener makes them. An exception that one call throws propagates to the caller, so the
  later calls are not made.
\<close>

fun feed ::
  "(jsstring \<Rightarrow> jsval option) \<Rightarrow> (jsval \<Rightarrow> jsstring option) \<Rightarrow> ('e, 'c) MCPServer \<Rightarrow> jsstring list \<Rightarrow> ('e, 'c) step" where
  "feed parse toStr srv [] = ([], Inr srv)"
| "feed parse toStr srv (chunk # chunks) =
     and_then (onData parse toStr srv chunk) (\<lambda>srv'. feed parse toStr srv' chunks)"

text \<open>\<^verbatim>\<open>async announce()\<close>\<close>

definition announce :: "('e, 'c) MCPServer \<Rightarrow> ('e, 'c) event list" where
  "announce srv =
     send (JObj [(lit ''jsonrpc'', JStr (lit ''2.0'')), (lit ''method'', JStr (lit ''mcp/announce'')),
                 (lit ''params'', JObj [(lit ''name'', name srv), (lit ''version'', version srv),
                                        (lit ''capabilities'', capabilities srv)])])"

section \<open>createServer\<close>

definition server_capabilities :: jsval where
  "server_capabilities =
     JObj [(lit ''resources'', JObj [(lit ''list'', JBool True), (lit ''read'', JBool True),
                                     (lit ''listChanged'', JBool True), (lit ''templates'', JBool True)]),
           (lit ''tools'', JObj [(lit ''list'', JBool True), (lit ''call'', JBool True)])]"

text \<open>
  The handler of \<^verbatim>\<open>initialize\<close>. It reads \<^verbatim>\<open>server.name\<close>, \<^verbatim>\<open>server.version\<close> and
  \<^verbatim>\<open>server.capabilities\<close>, which only the constructor assigns.
\<close>

definition initialize_handler :: "('e, 'c) MCPServer \<Rightarrow> 'e handler" where
  "initialize_handler server = (\<lambda>params.
     Returned (JObj [(lit ''protocolVersion'', JStr (lit ''2024-11-05'')),
                     (lit ''serverInfo'', JObj [(lit ''name'', name server),
                                                (lit ''version'', version server)]),
                     (lit ''capabilities'', capabilities server),
                     (lit ''resourceTemplates'', JArr [])]))"

definition initialized_handler :: "'e handler" where
  "initialized_handler = (\<lambda>params. Returned (JObj []))"

text \<open>
  The six handlers of the business methods query the connection pool; they are
  parameters of the model.
\<close>

record 'e business =
  resources_list :: "'e handler"
  resources_read :: "'e handler"
  resources_templates_list :: "'e handler"
  resources_templates_get :: "'e handler"
  tools_list :: "'e handler"
  tools_call :: "'e handler"

definition createServer :: "'e business \<Rightarrow> ('e, 'c) event list \<times> ('e, 'c) MCPServer" where
  "createServer biz =
     (let server = MCPServer_new (JStr (lit ''mysql-mcp-server'')) (JStr (lit ''1.0.1'')) server_capabilities;
          s1 = setHandler server (JStr (lit ''initialize'')) (initialize_handler server);
          s2 = setHandler s1 (JStr (lit ''initialized'')) initialized_handler;
          s3 = setHandler s2 (JStr (lit ''resources/list'')) (resources_list biz);
          s4 = setHandler s3 (JStr (lit ''resources/read'')) (resources_read biz);
          s5 = setHandler s4 (JStr (lit ''resources/templates/list'')) (resources_templates_list biz);
          s6 = setHandler s5 (JStr (lit ''resources/templates/get'')) (resources_templates_get biz);
          s7 = setHandler s6 (JStr (lit ''tools/list'')) (tools_list biz);
          s8 = setHandler s7 (JStr (lit ''tools/call'')) (tools_call biz)
      in (announce s8, s8))"

section \<open>Vocabulary of the properties\<close>

text \<open>
  A property of a message is on the wire when it has a value other than
  \<^verbatim>\<open>undefined\<close>: \<^verbatim>\<open>JSON.stringify\<close> leaves out a property whose value is \<^verbatim>\<open>undefined\<close>.
\<close>

definition carries :: "jsval \<Rightarrow> jsstring \<Rightarrow> bool" where
  "carries obj k =
     (case obj of
        JObj ps \<Rightarrow> (case map_of ps k of None \<Rightarrow> False | Some v \<Rightarrow> v \<noteq> JUndefined)
      | _ \<Rightarrow> False)"

text \<open>The part of a string after its last occurrence of \<open>c\<close>; all of it when there is none.\<close>

definition after_last :: "code_unit \<Rightarrow> jsstring \<Rightarrow> jsstring" where
  "after_last c s = rev (takeWhile (\<lambda>x. x \<noteq> c) (rev s))"

text \<open>
  Stand-ins for the runtime in the examples. \<open>sample_parse\<close> agrees with \<^verbatim>\<open>JSON.parse\<close>
  on the lines the examples feed: four messages, and the line \<^verbatim>\<open>{oops\<close>, which is no
  JSON text.
\<close>

definition sample_parse :: "jsstring \<Rightarrow> jsval option" where
  \<open>sample_parse line =
     (if line = lit ''{"id":1,"method":"initialize","params":{}}'' then
        Some (JObj [(lit ''id'', JNum (Fin 1)), (lit ''method'', JStr (lit ''initialize'')),
                    (lit ''params'', JObj [])])
      else if line = lit ''{"id":2,"method":"nope","params":{}}'' then
        Some (JObj [(lit ''id'', JNum (Fin 2)), (lit ''method'', JStr (lit ''nope'')),
                    (lit ''params'', JObj [])])
      else if line = lit ''{"method":"initialized"}'' then
        Some (JObj [(lit ''method'', JStr (lit ''initialized''))])
      else if line = lit ''{"id":7}'' then
        Some (JObj [(lit ''id'', JNum (Fin 7))])
      else None)\<close>

definition sample_business :: "string business" where
  "sample_business =
     \<lparr>resources_list = (\<lambda>params. NeverSettles),
      resources_read = (\<lambda>params. Raised ''uri required''),
      resources_templates_list = (\<lambda>params. NeverSettles),
      resources_templates_get = (\<lambda>params. Raised ''uri and templateId required''),
      tools_list = (\<lambda>params. NeverSettles),
      tools_call = (\<lambda>params. Returned (JObj [(lit ''error'', JStr (lit ''Unknown tool''))]))\<rparr>"

definition sample_server :: "(string, nat) MCPServer" where
  "sample_server = snd (createServer sample_business)"

section \<open>Facts about the model\<close>

lemma prepend_Nil [simp]: "prepend [] r = r"
  by (simp add: prepend_def)

lemma prepend_prepend [simp]: "prepend a (prepend b r) = prepend (a @ b) r"
  by (simp add: prepend_def)

lemma prepend_pair [simp]: "prepend a (es, x) = (a @ es, x)"
  by (simp add: prepend_def)

lemma and_then_Inr [simp]: "and_then (es, Inr s) f = prepend es (f s)"
  by (simp add: and_then_def)

lemma and_then_Inl [simp]: "and_then (es, Inl e) f = (es, Inl e)"
  by (simp add: and_then_def)

lemma and_then_prepend: "and_then (prepend es r) f = prepend es (and_then r f)"
  by (cases r; cases "snd r") (auto simp: and_then_def prepend_def)

lemma and_then_cong_result:
  assumes "\<And>es s. r = (es, Inr s) \<Longrightarrow> f s = g s"
  shows "and_then r f = and_then r g"
proof (cases r)
  case (Pair es x)
  with assms show ?thesis
    by (cases x) simp_all
qed

lemma takeWhile_first: "c \<notin> set l \<Longrightarrow> takeWhile (\<lambda>x. x \<noteq> c) (l @ c # rest) = l"
  by (induction l) auto

lemma indexOf_first: "c \<notin> set l \<Longrightarrow> indexOf (l @ c # rest) c = int (length l)"
  by (simp add: indexOf_def takeWhile_first)

lemma drain_no_newline:
  "newline \<notin> set (buffer (transport srv)) \<Longrightarrow> drain parse toStr srv = ([], Inr srv)"
  by (subst drain.simps) (simp add: indexOf_def)

lemma drain_line:
  assumes "buffer (transport srv) = l @ newline # rest" and "newline \<notin> set l"
  shows "drain parse toStr srv =
           (if trim l = [] then drain parse toStr (set_buffer srv rest)
            else (case parse (trim l) of
                    None \<Rightarrow> prepend [LogInvalidJSON (trim l)] (drain parse toStr (set_buffer srv rest))
                  | Some obj \<Rightarrow>
                      prepend [HandleMessage obj]
                        (and_then (handleMessage toStr (set_buffer srv rest) obj) (drain parse toStr))))"
proof -
  have idx: "indexOf (buffer (transport srv)) newline = int (length l)"
    using assms by (simp add: indexOf_first)
  have sl: "slice (buffer (transport srv)) 0 (int (length l)) = l"
    using assms by (simp add: slice_def)
  have sf: "slice_from (buffer (transport srv)) (int (length l) + 1) = rest"
    using assms by (simp add: slice_from_def nat_add_distrib)
  show ?thesis
    by (subst drain.simps)
      (auto simp: idx sl sf Let_def and_then_def prepend_def split: option.splits prod.splits sum.splits)
qed

lemma buffer_handleMessage:
  "handleMessage toStr srv msg = (es, Inr srv') \<Longrightarrow> buffer (transport srv') = buffer (transport srv)"
  by (auto simp: handleMessage_def MCPServer_onRequest_def Let_def
      split: sum.splits prod.splits option.splits if_splits)

lemma handleMessage_set_buffer:
  "handleMessage toStr (set_buffer srv b) msg =
     (case handleMessage toStr srv msg of
        (es, Inl err) \<Rightarrow> (es, Inl err)
      | (es, Inr srv') \<Rightarrow> (es, Inr (set_buffer srv' b)))"
  by (auto simp: handleMessage_def MCPServer_onRequest_def Let_def set_buffer_def
      split: sum.splits prod.splits option.splits if_splits)

lemma set_buffer_simps [simp]:
  "buffer (transport (set_buffer srv b)) = b"
  "set_buffer (set_buffer srv a) b = set_buffer srv b"
  by (simp_all add: set_buffer_def)

lemma set_buffer_same: "buffer (transport srv) = b \<Longrightarrow> set_buffer srv b = srv"
  by (simp add: set_buffer_def)

lemma drain_append:
  "drain parse toStr (set_buffer srv (buffer (transport srv) @ b)) =
     and_then (drain parse toStr srv)
       (\<lambda>s. drain parse toStr (set_buffer s (buffer (transport s) @ b)))"
proof (induction "length (buffer (transport srv))" arbitrary: srv rule: less_induct)
  case less
  let ?K = "\<lambda>s. drain parse toStr (set_buffer s (buffer (transport s) @ b))"
  show ?case
  proof (cases "newline \<in> set (buffer (transport srv))")
    case False
    then show ?thesis
      by (simp add: drain_no_newline)
  next
    case True
    then obtain l rest where buf: "buffer (transport srv) = l @ newline # rest" and l: "newline \<notin> set l"
      by (auto dest: split_list_first)
    let ?s1 = "set_buffer srv rest"
    have small: "length (buffer (transport s)) < length (buffer (transport srv))"
      if "buffer (transport s) = rest" for s :: "('a, 'b) MCPServer"
      using that buf by simp
    have IH: "drain parse toStr (set_buffer s (rest @ b)) = and_then (drain parse toStr s) ?K"
      if "buffer (transport s) = rest" for s :: "('a, 'b) MCPServer"
      using less [OF small [OF that]] that by simp
    have left: "drain parse toStr (set_buffer srv (buffer (transport srv) @ b)) =
           (if trim l = [] then drain parse toStr (set_buffer srv (rest @ b))
            else (case parse (trim l) of
                    None \<Rightarrow> prepend [LogInvalidJSON (trim l)] (drain parse toStr (set_buffer srv (rest @ b)))
                  | Some obj \<Rightarrow>
                      prepend [HandleMessage obj]
                        (and_then (handleMessage toStr (set_buffer srv (rest @ b)) obj) (drain parse toStr))))"
      using drain_line [of "set_buffer srv (buffer (transport srv) @ b)" l "rest @ b" parse toStr] buf l
      by (simp split: option.splits)
    have right: "drain parse toStr srv =
           (if trim l = [] then drain parse toStr ?s1
            else (case parse (trim l) of
                    None \<Rightarrow> prepend [LogInvalidJSON (trim l)] (drain parse toStr ?s1)
                  | Some obj \<Rightarrow>
                      prepend [HandleMessage obj]
                        (and_then (handleMessage toStr ?s1 obj) (drain parse toStr))))"
      by (rule drain_line [OF buf l])
    have s1: "drain parse toStr (set_buffer srv (rest @ b)) = and_then (drain parse toStr ?s1) ?K"
      using IH [of ?s1] by simp
    have msg: "and_then (handleMessage toStr (set_buffer srv (rest @ b)) obj) (drain parse toStr) =
               and_then (and_then (handleMessage toStr ?s1 obj) (drain parse toStr)) ?K" for obj
    proof (cases "handleMessage toStr ?s1 obj")
      case (Pair es x)
      show ?thesis
      proof (cases x)
        case (Inl err)
        with Pair show ?thesis
          using handleMessage_set_buffer [of toStr ?s1 "rest @ b" obj] by simp
      next
        case (Inr s2)
        with Pair have "buffer (transport s2) = rest"
          using buffer_handleMessage [of toStr ?s1 obj es s2] by simp
        from IH [OF this] Pair Inr show ?thesis
          using handleMessage_set_buffer [of toStr ?s1 "rest @ b" obj]
          by (simp add: and_then_prepend)
      qed
    qed
    show ?thesis
      unfolding left right
      by (simp add: s1 msg and_then_prepend split: option.splits)
  qed
qed

lemma onData_append:
  "onData parse toStr srv (a @ b) =
     and_then (onData parse toStr srv a) (\<lambda>s. onData parse toStr s b)"
  using drain_append [of parse toStr "set_buffer srv (buffer (transport srv) @ a)" b]
  by (simp add: onData_def)

lemma after_last_none: "c \<notin> set s \<Longrightarrow> after_last c s = s"
proof -
  assume "c \<notin> set s"
  then have "takeWhile (\<lambda>x. x \<noteq> c) (rev s) = rev s"
    by (auto simp: takeWhile_eq_all_conv)
  then show ?thesis
    unfolding after_last_def by (simp only: rev_rev_ident)
qed

lemma after_last_line: "after_last c (l @ c # rest) = after_last c rest"
  by (simp add: after_last_def takeWhile_append1 takeWhile_tail)

lemma after_last_free: "c \<notin> set (after_last c s)"
  unfolding after_last_def set_rev by (metis set_takeWhileD)

lemma drain_buffer:
  "drain parse toStr srv = (es, Inr srv') \<Longrightarrow>
     buffer (transport srv') = after_last newline (buffer (transport srv))"
proof (induction "length (buffer (transport srv))" arbitrary: srv es srv' rule: less_induct)
  case less
  show ?case
  proof (cases "newline \<in> set (buffer (transport srv))")
    case False
    with less.prems show ?thesis
      by (auto simp: drain_no_newline after_last_none)
  next
    case True
    then obtain l rest where buf: "buffer (transport srv) = l @ newline # rest" and l: "newline \<notin> set l"
      by (auto dest: split_list_first)
    let ?s1 = "set_buffer srv rest"
    have IH: "buffer (transport s') = after_last newline rest"
      if "buffer (transport s) = rest" "drain parse toStr s = (es', Inr s')"
      for s s' :: "('a, 'b) MCPServer" and es'
      using less.hyps [of s es'] that buf by simp
    have goal: "after_last newline (buffer (transport srv)) = after_last newline rest"
      by (simp add: buf after_last_line)
    from less.prems drain_line [OF buf l, of parse toStr]
    consider (skip) "drain parse toStr ?s1 = (es, Inr srv')"
      | (bad) "prepend [LogInvalidJSON (trim l)] (drain parse toStr ?s1) = (es, Inr srv')"
      | (msg) obj where "prepend [HandleMessage obj]
            (and_then (handleMessage toStr ?s1 obj) (drain parse toStr)) = (es, Inr srv')"
      by (auto split: if_splits option.splits)
    then show ?thesis
    proof cases
      case skip
      then show ?thesis using IH [of ?s1] goal by simp
    next
      case bad
      then obtain es' where "drain parse toStr ?s1 = (es', Inr srv')"
        by (cases "drain parse toStr ?s1") (auto simp: prepend_def)
      then show ?thesis using IH [of ?s1] goal by simp
    next
      case msg
      obtain es1 x where hm: "handleMessage toStr ?s1 obj = (es1, x)"
        by (cases "handleMessage toStr ?s1 obj")
      with msg obtain s2 where x: "x = Inr s2"
        by (cases x) (auto simp: prepend_def)
      with hm have b2: "buffer (transport s2) = rest"
        using buffer_handleMessage [of toStr ?s1 obj es1 s2] by simp
      from msg hm x obtain es2 where "drain parse toStr s2 = (es2, Inr srv')"
        by (cases "drain parse toStr s2") (auto simp: prepend_def)
      with IH [OF b2] goal show ?thesis by simp
    qed
  qed
qed

lemma onData_buffer:
  "onData parse toStr srv chunk = (es, Inr srv') \<Longrightarrow>
     buffer (transport srv') = after_last newline (buffer (transport srv) @ chunk)"
  using drain_buffer [of parse toStr "set_buffer srv (buffer (transport srv) @ chunk)" es srv']
  by (simp add: onData_def)

lemma onData_empty:
  "newline \<notin> set (buffer (transport srv)) \<Longrightarrow> onData parse toStr srv [] = ([], Inr srv)"
  by (simp add: onData_def set_buffer_same drain_no_newline)

lemma after_last_line_start: "s = [] \<or> last s = c \<Longrightarrow> after_last c s = []"
  by (cases s rule: rev_cases) (auto simp: after_last_def)

lemma after_last_append: "after_last c (after_last c a @ b) = after_last c (a @ b)"
proof (cases "c \<in> set b")
  case True
  then show ?thesis
    by (auto simp: after_last_def takeWhile_append)
next
  case False
  then show ?thesis
    by (auto simp: after_last_def takeWhile_append)
qed

lemma onData_at_line_start:
  assumes "buffer (transport srv) @ pre = [] \<or> last (buffer (transport srv) @ pre) = newline"
    and "onData parse toStr srv pre = (es, Inr s)"
  shows "buffer (transport s) = []"
  using assms by (simp add: onData_buffer after_last_line_start)

lemma onData_first_line:
  assumes "buffer (transport s) = []" and "newline \<notin> set l"
  shows "onData parse toStr s (l @ newline # rest) =
           (if trim l = [] then onData parse toStr s rest
            else (case parse (trim l) of
                    None \<Rightarrow> prepend [LogInvalidJSON (trim l)] (onData parse toStr s rest)
                  | Some obj \<Rightarrow>
                      prepend [HandleMessage obj]
                        (and_then (handleMessage toStr (set_buffer s rest) obj) (drain parse toStr))))"
  using assms drain_line [of "set_buffer s (l @ newline # rest)" l rest parse toStr]
  by (simp add: onData_def split: option.splits)

lemma feed_buffer:
  assumes "newline \<notin> set (buffer (transport srv))"
    and "feed parse toStr srv chunks = (es, Inr srv')"
  shows "buffer (transport srv') = after_last newline (buffer (transport srv) @ concat chunks)"
  using assms
proof (induction chunks arbitrary: srv es)
  case Nil
  then show ?case by (simp add: after_last_none)
next
  case (Cons chunk chunks)
  obtain es1 x where od: "onData parse toStr srv chunk = (es1, x)"
    by (cases "onData parse toStr srv chunk")
  with Cons.prems obtain s1 where x: "x = Inr s1"
    by (cases x) auto
  with od have b1: "buffer (transport s1) = after_last newline (buffer (transport srv) @ chunk)"
    by (simp add: onData_buffer)
  then have free: "newline \<notin> set (buffer (transport s1))"
    by (simp add: after_last_free)
  from Cons.prems od x obtain es2 where "feed parse toStr s1 chunks = (es2, Inr srv')"
    by (cases "feed parse toStr s1 chunks") (auto simp: prepend_def)
  from Cons.IH [OF free this] show ?case
    using after_last_append [of newline "buffer (transport srv) @ chunk" "concat chunks"]
    by (simp add: b1)
qed

lemma field_names_distinct:
  "lit ''result'' \<noteq> lit ''error''" "lit ''jsonrpc'' \<noteq> lit ''error''" "lit ''id'' \<noteq> lit ''error''"
  "lit ''jsonrpc'' \<noteq> lit ''result''" "lit ''id'' \<noteq> lit ''result''" "lit ''jsonrpc'' \<noteq> lit ''id''"
  by (simp_all add: lit_def)

lemma sample_server_transport:
  "buffer (transport sample_server) = []"
  "pending (transport sample_server) = Map.empty"
  "onRequest (transport sample_server)"
  by (simp_all add: sample_server_def createServer_def Let_def setHandler_def MCPServer_new_def
      JsonRpcStdio_new_def)

section \<open>Dispatch\<close>

text \<open>
  C1. A request whose method name has no registered handler gets exactly one reply: the
  error with code -32601 under the id of the request. No handler is invoked (the only
  effect is the write) and the server, so its handler registry, is the one before.
\<close>

theorem unregistered_method_reply:
  assumes "destructure msg = Inr (i, JStr nm, params)"
    and "\<not> Map_has (handlers srv) (JStr nm)"
  shows "MCPServer_onRequest toStr srv msg =
           ([StdoutWrite
               (JObj [(lit ''jsonrpc'', JStr (lit ''2.0'')), (lit ''id'', i),
                      (lit ''error'', JObj [(lit ''code'', JNum (Fin (- 32601))),
                                            (lit ''message'', JStr (lit ''Method not found: '' @ nm))])])],
            srv)"
  using assms
  by (simp add: MCPServer_onRequest_def Map_has_def plus_string_def send_def method_not_found_def)

theorem unregistered_method_reply_witness:
  "destructure (JObj [(lit ''id'', JNum (Fin 2)), (lit ''method'', JStr (lit ''nope'')), (lit ''params'', JObj [])])
     = Inr (JNum (Fin 2), JStr (lit ''nope''), JObj [])
   \<and> \<not> Map_has (handlers sample_server) (JStr (lit ''nope''))
   \<and> MCPServer_onRequest (\<lambda>v. None) sample_server
        (JObj [(lit ''id'', JNum (Fin 2)), (lit ''method'', JStr (lit ''nope'')), (lit ''params'', JObj [])]) =
       ([StdoutWrite
           (JObj [(lit ''jsonrpc'', JStr (lit ''2.0'')), (lit ''id'', JNum (Fin 2)),
                  (lit ''error'', JObj [(lit ''code'', JNum (Fin (- 32601))),
                                        (lit ''message'', JStr (lit ''Method not found: nope''))])])],
        sample_server)"
proof -
  have d: "destructure (JObj [(lit ''id'', JNum (Fin 2)), (lit ''method'', JStr (lit ''nope'')), (lit ''params'', JObj [])])
     = Inr (JNum (Fin 2), JStr (lit ''nope''), JObj [])"
    by (simp add: destructure_def lit_def)
  have h: "\<not> Map_has (handlers sample_server) (JStr (lit ''nope''))"
    by (simp add: sample_server_def createServer_def Let_def setHandler_def Map_set_def Map_has_def
      Map_get_def by_reference_def MCPServer_new_def lit_def)
  have l: "lit ''Method not found: '' @ lit ''nope'' = lit ''Method not found: nope''"
    by (simp add: lit_def)
  show ?thesis
    using unregistered_method_reply [OF d h, of "\<lambda>v. None"] d h l by simp
qed

text \<open>
  C2. When the registered handler raises, the request gets exactly one reply: the error
  with code -32603 and the fixed message, under the id of the request, after the failure
  is logged. The text written is the serialization of a message built from the id alone,
  so a second run in which the handler raises something else writes the same text.
\<close>

theorem handler_failure_reply:
  assumes "destructure msg = Inr (i, method, params)"
    and "Map_get (handlers srv) method = Some fn"
    and "fn (if truthy params then params else JObj []) = Raised err"
    and "Map_get (handlers srv') method = Some fn'"
    and "fn' (if truthy params then params else JObj []) = Raised err'"
  shows "MCPServer_onRequest toStr srv msg =
           ([Invoke method (if truthy params then params else JObj []),
             LogHandlerThrew err,
             StdoutWrite
               (JObj [(lit ''jsonrpc'', JStr (lit ''2.0'')), (lit ''id'', i),
                      (lit ''error'', JObj [(lit ''code'', JNum (Fin (- 32603))),
                                            (lit ''message'', JStr (lit ''Internal error''))])])],
            srv)
       \<and> stdout_text stringify (fst (MCPServer_onRequest toStr srv msg)) =
           serialized stringify (internal_error i)
       \<and> stdout_text stringify (fst (MCPServer_onRequest toStr srv' msg)) =
           stdout_text stringify (fst (MCPServer_onRequest toStr srv msg))"
  using assms
  by (simp add: MCPServer_onRequest_def send_def internal_error_def Let_def)

theorem handler_failure_reply_witness:
  "destructure (JObj [(lit ''id'', JNum (Fin 4)), (lit ''method'', JStr (lit ''resources/read''))])
     = Inr (JNum (Fin 4), JStr (lit ''resources/read''), JUndefined)
   \<and> Map_get (handlers sample_server) (JStr (lit ''resources/read'')) = Some (\<lambda>params. Raised ''uri required'')
   \<and> Map_get (handlers (setHandler sample_server (JStr (lit ''resources/read'')) (\<lambda>params. Raised ''boom'')))
         (JStr (lit ''resources/read'')) = Some (\<lambda>params. Raised ''boom'')
   \<and> MCPServer_onRequest (\<lambda>v. None) sample_server
        (JObj [(lit ''id'', JNum (Fin 4)), (lit ''method'', JStr (lit ''resources/read''))]) =
       ([Invoke (JStr (lit ''resources/read'')) (JObj []),
         LogHandlerThrew ''uri required'',
         StdoutWrite
           (JObj [(lit ''jsonrpc'', JStr (lit ''2.0'')), (lit ''id'', JNum (Fin 4)),
                  (lit ''error'', JObj [(lit ''code'', JNum (Fin (- 32603))),
                                        (lit ''message'', JStr (lit ''Internal error''))])])],
        sample_server)
   \<and> stdout_text (\<lambda>obj. lit ''{}'')
        (fst (MCPServer_onRequest (\<lambda>v. None)
           (setHandler sample_server (JStr (lit ''resources/read'')) (\<lambda>params. Raised ''boom''))
           (JObj [(lit ''id'', JNum (Fin 4)), (lit ''method'', JStr (lit ''resources/read''))]))) =
     stdout_text (\<lambda>obj. lit ''{}'')
        (fst (MCPServer_onRequest (\<lambda>v. None) sample_server
           (JObj [(lit ''id'', JNum (Fin 4)), (lit ''method'', JStr (lit ''resources/read''))])))"
proof -
  let ?msg = "JObj [(lit ''id'', JNum (Fin 4)), (lit ''method'', JStr (lit ''resources/read''))]"
  let ?srv' = "setHandler sample_server (JStr (lit ''resources/read'')) (\<lambda>params. Raised ''boom'')"
  have d: "destructure ?msg = Inr (JNum (Fin 4), JStr (lit ''resources/read''), JUndefined)"
    by (simp add: destructure_def lit_def)
  have h: "Map_get (handlers sample_server) (JStr (lit ''resources/read'')) = Some (\<lambda>params. Raised ''uri required'')"
    by (simp add: sample_server_def createServer_def Let_def setHandler_def Map_set_def
      Map_get_def by_reference_def MCPServer_new_def lit_def sample_business_def)
  have h': "Map_get (handlers ?srv') (JStr (lit ''resources/read'')) = Some (\<lambda>params. Raised ''boom'')"
    by (simp add: setHandler_def Map_set_def Map_get_def by_reference_def)
  have r: "(\<lambda>params::jsval. (Raised ''uri required'') :: string outcome)
             (if truthy JUndefined then JUndefined else JObj []) = Raised ''uri required''"
    by simp
  have r': "(\<lambda>params::jsval. (Raised ''boom'') :: string outcome)
             (if truthy JUndefined then JUndefined else JObj []) = Raised ''boom''"
    by simp
  show ?thesis
    using handler_failure_reply [OF d h r h' r', of "\<lambda>v. None" "\<lambda>obj. lit ''{}''"] d h h'
    by simp
qed

text \<open>
  C3, as stated, fails: no branch of \<^verbatim>\<open>_onRequest\<close> looks at whether the message has an
  id. The notification \<^verbatim>\<open>{"method":"initialized"}\<close> is answered with the handler's value.
\<close>

theorem notification_reply_counterexample:
  "field (JObj [(lit ''method'', JStr (lit ''initialized''))]) (lit ''id'') = Inr JUndefined
   \<and> fst (MCPServer_onRequest (\<lambda>v. None) sample_server (JObj [(lit ''method'', JStr (lit ''initialized''))])) =
       [Invoke (JStr (lit ''initialized'')) (JObj []),
        StdoutWrite (JObj [(lit ''jsonrpc'', JStr (lit ''2.0'')), (lit ''id'', JUndefined),
                           (lit ''result'', JObj [])])]"
  by (simp add: MCPServer_onRequest_def destructure_def send_def success_reply_def Let_def
      sample_server_def createServer_def setHandler_def Map_set_def
      Map_get_def by_reference_def MCPServer_new_def lit_def initialized_handler_def)

text \<open>
  C3, amended. A message with a method and no id has its registered handler invoked and
  then gets exactly one reply, which has no id on the wire: the handler's value as result
  when it succeeds, the error with code -32603 when it raises, after the failure is logged.
\<close>

theorem notification_reply:
  assumes "destructure msg = Inr (JUndefined, method, params)"
    and "Map_get (handlers srv) method = Some fn"
    and "args = (if truthy params then params else JObj [])"
  shows "(\<forall>result. fn args = Returned result \<longrightarrow>
            MCPServer_onRequest toStr srv msg =
              ([Invoke method args, StdoutWrite (success_reply JUndefined result)], srv))
       \<and> (\<forall>err. fn args = Raised err \<longrightarrow>
            MCPServer_onRequest toStr srv msg =
              ([Invoke method args, LogHandlerThrew err, StdoutWrite (internal_error JUndefined)], srv))
       \<and> \<not> carries (success_reply JUndefined result) (lit ''id'')
       \<and> \<not> carries (internal_error JUndefined) (lit ''id'')"
  using assms
  by (simp add: MCPServer_onRequest_def send_def Let_def carries_def success_reply_def
      internal_error_def lit_def)

theorem notification_reply_witness:
  "destructure (JObj [(lit ''method'', JStr (lit ''initialized''))])
     = Inr (JUndefined, JStr (lit ''initialized''), JUndefined)
   \<and> Map_get (handlers sample_server) (JStr (lit ''initialized'')) = Some initialized_handler
   \<and> initialized_handler (JObj []) = (Returned (JObj []) :: string outcome)
   \<and> MCPServer_onRequest (\<lambda>v. None) sample_server (JObj [(lit ''method'', JStr (lit ''initialized''))]) =
       ([Invoke (JStr (lit ''initialized'')) (JObj []), StdoutWrite (success_reply JUndefined (JObj []))],
        sample_server)"
proof -
  let ?msg = "JObj [(lit ''method'', JStr (lit ''initialized''))]"
  have d: "destructure ?msg = Inr (JUndefined, JStr (lit ''initialized''), JUndefined)"
    by (simp add: destructure_def lit_def)
  have h: "Map_get (handlers sample_server) (JStr (lit ''initialized'')) = Some initialized_handler"
    by (simp add: sample_server_def createServer_def Let_def setHandler_def Map_set_def
      Map_get_def by_reference_def MCPServer_new_def lit_def)
  have a: "JObj [] = (if truthy JUndefined then JUndefined else JObj [])"
    by simp
  have r: "initialized_handler (JObj []) = (Returned (JObj []) :: string outcome)"
    by (simp add: initialized_handler_def)
  show ?thesis
    using notification_reply [OF d h a, of "\<lambda>v. None"] d h r by simp
qed

section \<open>Framing and classification\<close>

text \<open>
  C4. Starting from a buffer without a newline (the constructor's empty buffer, or the
  buffer any earlier call left), feeding the chunks of any partition one call at a time
  gives the same effects in the same order, each call of \<^verbatim>\<open>_handleMessage\<close> among them,
  and the same final state or thrown exception as feeding the concatenation in one call.
\<close>

theorem chunking_independent:
  assumes "newline \<notin> set (buffer (transport srv))"
  shows "feed parse toStr srv chunks = onData parse toStr srv (concat chunks)"
  using assms
proof (induction chunks arbitrary: srv)
  case Nil
  then show ?case by (simp add: onData_empty)
next
  case (Cons chunk chunks)
  have "and_then (onData parse toStr srv chunk) (\<lambda>s. feed parse toStr s chunks) =
        and_then (onData parse toStr srv chunk) (\<lambda>s. onData parse toStr s (concat chunks))"
  proof (rule and_then_cong_result)
    fix es s
    assume "onData parse toStr srv chunk = (es, Inr s)"
    then have "newline \<notin> set (buffer (transport s))"
      by (simp add: onData_buffer after_last_free)
    then show "feed parse toStr s chunks = onData parse toStr s (concat chunks)"
      by (rule Cons.IH)
  qed
  then show ?case
    by (simp add: onData_append)
qed

theorem chunking_independent_witness:
  \<open>newline \<notin> set (buffer (transport sample_server))
   \<and> feed sample_parse (\<lambda>v. None) sample_server
        [lit ''{"id":2,"meth'', lit ''od":"nope","params":{}}\<newline>{oo'', lit ''ps\<newline>  \<newline>{"id"'']
      = onData sample_parse (\<lambda>v. None) sample_server
          (lit ''{"id":2,"method":"nope","params":{}}\<newline>{oops\<newline>  \<newline>{"id"'')
   \<and> fst (onData sample_parse (\<lambda>v. None) sample_server
          (lit ''{"id":2,"method":"nope","params":{}}\<newline>{oops\<newline>  \<newline>{"id"'')) =
       [HandleMessage (JObj [(lit ''id'', JNum (Fin 2)), (lit ''method'', JStr (lit ''nope'')),
                             (lit ''params'', JObj [])]),
        StdoutWrite (JObj [(lit ''jsonrpc'', JStr (lit ''2.0'')), (lit ''id'', JNum (Fin 2)),
                           (lit ''error'', JObj [(lit ''code'', JNum (Fin (- 32601))),
                                                 (lit ''message'', JStr (lit ''Method not found: nope''))])]),
        LogInvalidJSON (lit ''{oops'')]\<close>
proof -
  have h: "newline \<notin> set (buffer (transport sample_server))"
    by (simp add: sample_server_transport)
  have c: \<open>concat [lit ''{"id":2,"meth'', lit ''od":"nope","params":{}}\<newline>{oo'', lit ''ps\<newline>  \<newline>{"id"'']
      = lit ''{"id":2,"method":"nope","params":{}}\<newline>{oops\<newline>  \<newline>{"id"''\<close>
    by (simp add: lit_def)
  have e: \<open>fst (onData sample_parse (\<lambda>v. None) sample_server
          (lit ''{"id":2,"method":"nope","params":{}}\<newline>{oops\<newline>  \<newline>{"id"'')) =
       [HandleMessage (JObj [(lit ''id'', JNum (Fin 2)), (lit ''method'', JStr (lit ''nope'')),
                             (lit ''params'', JObj [])]),
        StdoutWrite (JObj [(lit ''jsonrpc'', JStr (lit ''2.0'')), (lit ''id'', JNum (Fin 2)),
                           (lit ''error'', JObj [(lit ''code'', JNum (Fin (- 32601))),
                                                 (lit ''message'', JStr (lit ''Method not found: nope''))])]),
        LogInvalidJSON (lit ''{oops'')]\<close>
    by (simp add: onData_def drain.simps Let_def indexOf_def slice_def slice_from_def
        trim_def is_ws_def newline_def lit_def set_buffer_def sample_parse_def handleMessage_def
        MCPServer_onRequest_def destructure_def Map_get_def by_reference_def send_def
        method_not_found_def plus_string_def prepend_def and_then_def sample_server_def
        createServer_def setHandler_def Map_set_def MCPServer_new_def JsonRpcStdio_new_def)
  have \<open>feed sample_parse (\<lambda>v. None) sample_server
        [lit ''{"id":2,"meth'', lit ''od":"nope","params":{}}\<newline>{oo'', lit ''ps\<newline>  \<newline>{"id"'']
      = onData sample_parse (\<lambda>v. None) sample_server
          (lit ''{"id":2,"method":"nope","params":{}}\<newline>{oops\<newline>  \<newline>{"id"'')\<close>
    using chunking_independent [OF h, of sample_parse "\<lambda>v. None"
        \<open>[lit ''{"id":2,"meth'', lit ''od":"nope","params":{}}\<newline>{oo'', lit ''ps\<newline>  \<newline>{"id"'']\<close>]
    by (simp only: c)
  with h e show ?thesis
    by (intro conjI)
qed

text \<open>
  C5, as stated, fails for an id that is falsy: the reply \<^verbatim>\<open>{"id":0}\<close> leaves the entry
  registered under \<^verbatim>\<open>0\<close> in place and calls nothing.
\<close>

theorem reply_correlation_counterexample:
  "Map_get (pending (transport (sample_server
       \<lparr>transport := (transport sample_server)\<lparr>pending := [JNum (Fin 0) \<mapsto> 42]\<rparr>\<rparr>))) (JNum (Fin 0)) = Some 42
   \<and> handleMessage (\<lambda>v. None)
        (sample_server\<lparr>transport := (transport sample_server)\<lparr>pending := [JNum (Fin 0) \<mapsto> 42]\<rparr>\<rparr>)
        (JObj [(lit ''id'', JNum (Fin 0))]) =
       ([], Inr (sample_server\<lparr>transport := (transport sample_server)\<lparr>pending := [JNum (Fin 0) \<mapsto> 42]\<rparr>\<rparr>))"
  by (simp add: handleMessage_def Map_get_def by_reference_def lit_def)

text \<open>
  C5, amended. For a message whose method is absent or falsy and whose id is truthy: when
  the registry has an entry for the id, its callback is called with the message and that
  entry, and no other, is removed, after which the registry has no entry for the id and
  the same message again calls nothing and changes nothing; when the registry has no
  entry, nothing is called and nothing changes.
\<close>

theorem reply_correlation:
  assumes "field msg (lit ''method'') = Inr m" and "\<not> truthy m"
    and "field msg (lit ''id'') = Inr i" and "truthy i"
    and "srv' = srv\<lparr>transport := (transport srv)\<lparr>pending := (pending (transport srv))(i := None)\<rparr>\<rparr>"
  shows "(\<forall>resolver. Map_get (pending (transport srv)) i = Some resolver \<longrightarrow>
            handleMessage toStr srv msg = ([Resolve resolver msg], Inr srv')
            \<and> Map_get (pending (transport srv')) i = None
            \<and> handleMessage toStr srv' msg = ([], Inr srv'))
       \<and> (Map_get (pending (transport srv)) i = None \<longrightarrow>
            handleMessage toStr srv msg = ([], Inr srv))"
  using assms
  by (auto simp: handleMessage_def Map_get_def Map_delete_def split: if_splits)

theorem reply_correlation_witness:
  \<open>field (JObj [(lit ''id'', JNum (Fin 7))]) (lit ''method'') = Inr JUndefined
   \<and> \<not> truthy JUndefined
   \<and> field (JObj [(lit ''id'', JNum (Fin 7))]) (lit ''id'') = Inr (JNum (Fin 7))
   \<and> truthy (JNum (Fin 7))
   \<and> Map_get (pending (transport (sample_server
        \<lparr>transport := (transport sample_server)\<lparr>pending := [JNum (Fin 7) \<mapsto> 42]\<rparr>\<rparr>))) (JNum (Fin 7)) = Some 42
   \<and> handleMessage (\<lambda>v. None)
        (sample_server\<lparr>transport := (transport sample_server)\<lparr>pending := [JNum (Fin 7) \<mapsto> 42]\<rparr>\<rparr>)
        (JObj [(lit ''id'', JNum (Fin 7))]) =
       ([Resolve 42 (JObj [(lit ''id'', JNum (Fin 7))])],
        Inr (sample_server\<lparr>transport := (transport sample_server)\<lparr>pending := Map.empty\<rparr>\<rparr>))
   \<and> handleMessage (\<lambda>v. None)
        (sample_server\<lparr>transport := (transport sample_server)\<lparr>pending := Map.empty\<rparr>\<rparr>)
        (JObj [(lit ''id'', JNum (Fin 7))]) =
       ([], Inr (sample_server\<lparr>transport := (transport sample_server)\<lparr>pending := Map.empty\<rparr>\<rparr>))\<close>
proof -
  let ?msg = "JObj [(lit ''id'', JNum (Fin 7))]"
  let ?srv = "sample_server\<lparr>transport := (transport sample_server)\<lparr>pending := [JNum (Fin 7) \<mapsto> 42]\<rparr>\<rparr>"
  let ?srv' = "sample_server\<lparr>transport := (transport sample_server)\<lparr>pending := Map.empty\<rparr>\<rparr>"
  have m: "field ?msg (lit ''method'') = Inr JUndefined"
    by (simp add: lit_def)
  have f: "\<not> truthy JUndefined"
    by simp
  have i: "field ?msg (lit ''id'') = Inr (JNum (Fin 7))"
    by (simp add: lit_def)
  have t: "truthy (JNum (Fin 7))"
    by simp
  have s: "?srv' = ?srv\<lparr>transport := (transport ?srv)\<lparr>pending := (pending (transport ?srv))(JNum (Fin 7) := None)\<rparr>\<rparr>"
    by simp
  have p: "Map_get (pending (transport ?srv)) (JNum (Fin 7)) = Some 42"
    by (simp add: Map_get_def by_reference_def)
  from reply_correlation [OF m f i t s, of "\<lambda>v. None"] p
  have "handleMessage (\<lambda>v. None) ?srv ?msg = ([Resolve 42 ?msg], Inr ?srv')
        \<and> handleMessage (\<lambda>v. None) ?srv' ?msg = ([], Inr ?srv')"
    by blast
  with m f i t p show ?thesis
    by blast
qed

section \<open>The handshake\<close>

text \<open>
  C6. On the server that \<^verbatim>\<open>createServer\<close> builds, a request named \<^verbatim>\<open>initialize\<close> is
  answered under its own id with the protocol version, the server's name and version, the
  capabilities given to the constructor and an empty list of templates.
\<close>

theorem initialize_reply:
  assumes "destructure msg = Inr (i, JStr (lit ''initialize''), params)"
  shows "MCPServer_onRequest toStr (snd (createServer biz)) msg =
           ([Invoke (JStr (lit ''initialize'')) (if truthy params then params else JObj []),
             StdoutWrite
               (JObj [(lit ''jsonrpc'', JStr (lit ''2.0'')), (lit ''id'', i),
                      (lit ''result'',
                       JObj [(lit ''protocolVersion'', JStr (lit ''2024-11-05'')),
                             (lit ''serverInfo'',
                              JObj [(lit ''name'', JStr (lit ''mysql-mcp-server'')),
                                    (lit ''version'', JStr (lit ''1.0.1''))]),
                             (lit ''capabilities'', server_capabilities),
                             (lit ''resourceTemplates'', JArr [])])])],
            snd (createServer biz))"
proof -
  have "Map_get (handlers (snd (createServer biz) :: ('a, 'b) MCPServer)) (JStr (lit ''initialize''))
          = Some (initialize_handler
              (MCPServer_new (JStr (lit ''mysql-mcp-server'')) (JStr (lit ''1.0.1'')) server_capabilities
                 :: ('a, 'b) MCPServer))"
    by (simp add: createServer_def Let_def setHandler_def Map_set_def
        Map_get_def by_reference_def lit_def)
  with assms show ?thesis
    by (simp add: MCPServer_onRequest_def Let_def send_def success_reply_def
        initialize_handler_def MCPServer_new_def)
qed

theorem initialize_reply_witness:
  "destructure (JObj [(lit ''id'', JNum (Fin 1)), (lit ''method'', JStr (lit ''initialize'')),
                      (lit ''params'', JObj [])])
     = Inr (JNum (Fin 1), JStr (lit ''initialize''), JObj [])
   \<and> fst (MCPServer_onRequest (\<lambda>v. None) sample_server
        (JObj [(lit ''id'', JNum (Fin 1)), (lit ''method'', JStr (lit ''initialize'')),
               (lit ''params'', JObj [])])) =
       [Invoke (JStr (lit ''initialize'')) (JObj []),
        StdoutWrite
          (JObj [(lit ''jsonrpc'', JStr (lit ''2.0'')), (lit ''id'', JNum (Fin 1)),
                 (lit ''result'',
                  JObj [(lit ''protocolVersion'', JStr (lit ''2024-11-05'')),
                        (lit ''serverInfo'',
                         JObj [(lit ''name'', JStr (lit ''mysql-mcp-server'')),
                               (lit ''version'', JStr (lit ''1.0.1''))]),
                        (lit ''capabilities'', server_capabilities),
                        (lit ''resourceTemplates'', JArr [])])])]"
proof -
  have d: "destructure (JObj [(lit ''id'', JNum (Fin 1)), (lit ''method'', JStr (lit ''initialize'')),
                      (lit ''params'', JObj [])])
     = Inr (JNum (Fin 1), JStr (lit ''initialize''), JObj [])"
    by (simp add: destructure_def lit_def)
  have "MCPServer_onRequest (\<lambda>v. None) (snd (createServer sample_business) :: (string, nat) MCPServer)
          (JObj [(lit ''id'', JNum (Fin 1)), (lit ''method'', JStr (lit ''initialize'')),
                 (lit ''params'', JObj [])]) =
        ([Invoke (JStr (lit ''initialize'')) (if truthy (JObj []) then JObj [] else JObj []),
          StdoutWrite
            (JObj [(lit ''jsonrpc'', JStr (lit ''2.0'')), (lit ''id'', JNum (Fin 1)),
                   (lit ''result'',
                    JObj [(lit ''protocolVersion'', JStr (lit ''2024-11-05'')),
                          (lit ''serverInfo'',
                           JObj [(lit ''name'', JStr (lit ''mysql-mcp-server'')),
                                 (lit ''version'', JStr (lit ''1.0.1''))]),
                          (lit ''capabilities'', server_capabilities),
                          (lit ''resourceTemplates'', JArr [])])])],
         snd (createServer sample_business))"
    by (rule initialize_reply [OF d])
  with d show ?thesis
    by (simp add: sample_server_def)
qed

section \<open>Lines that carry no message\<close>

text \<open>
  C7. A whole line that is not empty after trimming and does not parse adds exactly one
  log entry, between the effects of the input before it and those of the input after it.
  The input after it is processed from the state the input before it left, so the line
  changes no state, and the call goes on to every later line.
\<close>

theorem invalid_line_logged:
  assumes "buffer (transport srv) @ pre = [] \<or> last (buffer (transport srv) @ pre) = newline"
    and "newline \<notin> set l" and "trim l \<noteq> []" and "parse (trim l) = None"
  shows "onData parse toStr srv (pre @ l @ newline # rest) =
           and_then (onData parse toStr srv pre)
             (\<lambda>s. prepend [LogInvalidJSON (trim l)] (onData parse toStr s rest))"
proof -
  have "and_then (onData parse toStr srv pre) (\<lambda>s. onData parse toStr s (l @ newline # rest)) =
        and_then (onData parse toStr srv pre)
          (\<lambda>s. prepend [LogInvalidJSON (trim l)] (onData parse toStr s rest))"
  proof (rule and_then_cong_result)
    fix es s
    assume "onData parse toStr srv pre = (es, Inr s)"
    with assms(1) have "buffer (transport s) = []"
      by (rule onData_at_line_start)
    with assms(2-4) show "onData parse toStr s (l @ newline # rest) =
        prepend [LogInvalidJSON (trim l)] (onData parse toStr s rest)"
      by (simp add: onData_first_line)
  qed
  then show ?thesis
    using onData_append [of parse toStr srv pre "l @ newline # rest"] by simp
qed

theorem invalid_line_logged_witness:
  \<open>(buffer (transport sample_server) @ lit ''{"id":2,"method":"nope","params":{}}\<newline>'' = []
      \<or> last (buffer (transport sample_server) @ lit ''{"id":2,"method":"nope","params":{}}\<newline>'') = newline)
   \<and> newline \<notin> set (lit '' {oops'')
   \<and> trim (lit '' {oops'') \<noteq> []
   \<and> sample_parse (trim (lit '' {oops'')) = None
   \<and> onData sample_parse (\<lambda>v. None) sample_server
        (lit ''{"id":2,"method":"nope","params":{}}\<newline>'' @ lit '' {oops'' @ newline # lit ''{"id":7}\<newline>'') =
      and_then (onData sample_parse (\<lambda>v. None) sample_server (lit ''{"id":2,"method":"nope","params":{}}\<newline>''))
        (\<lambda>s. prepend [LogInvalidJSON (trim (lit '' {oops''))]
               (onData sample_parse (\<lambda>v. None) s (lit ''{"id":7}\<newline>'')))
   \<and> fst (onData sample_parse (\<lambda>v. None) sample_server
        (lit ''{"id":2,"method":"nope","params":{}}\<newline>'' @ lit '' {oops'' @ newline # lit ''{"id":7}\<newline>'')) =
       [HandleMessage (JObj [(lit ''id'', JNum (Fin 2)), (lit ''method'', JStr (lit ''nope'')),
                             (lit ''params'', JObj [])]),
        StdoutWrite (JObj [(lit ''jsonrpc'', JStr (lit ''2.0'')), (lit ''id'', JNum (Fin 2)),
                           (lit ''error'', JObj [(lit ''code'', JNum (Fin (- 32601))),
                                                 (lit ''message'', JStr (lit ''Method not found: nope''))])]),
        LogInvalidJSON (lit ''{oops''),
        HandleMessage (JObj [(lit ''id'', JNum (Fin 7))])]\<close>
proof -
  have a: \<open>buffer (transport sample_server) @ lit ''{"id":2,"method":"nope","params":{}}\<newline>'' = []
      \<or> last (buffer (transport sample_server) @ lit ''{"id":2,"method":"nope","params":{}}\<newline>'') = newline\<close>
    by (simp add: sample_server_transport lit_def newline_def)
  have b: "newline \<notin> set (lit '' {oops'')"
    by (simp add: lit_def newline_def)
  have c: "trim (lit '' {oops'') \<noteq> []"
    by (simp add: trim_def is_ws_def lit_def)
  have d: "sample_parse (trim (lit '' {oops'')) = None"
    by (simp add: sample_parse_def trim_def is_ws_def lit_def)
  have e: \<open>fst (onData sample_parse (\<lambda>v. None) sample_server
        (lit ''{"id":2,"method":"nope","params":{}}\<newline>'' @ lit '' {oops'' @ newline # lit ''{"id":7}\<newline>'')) =
       [HandleMessage (JObj [(lit ''id'', JNum (Fin 2)), (lit ''method'', JStr (lit ''nope'')),
                             (lit ''params'', JObj [])]),
        StdoutWrite (JObj [(lit ''jsonrpc'', JStr (lit ''2.0'')), (lit ''id'', JNum (Fin 2)),
                           (lit ''error'', JObj [(lit ''code'', JNum (Fin (- 32601))),
                                                 (lit ''message'', JStr (lit ''Method not found: nope''))])]),
        LogInvalidJSON (lit ''{oops''),
        HandleMessage (JObj [(lit ''id'', JNum (Fin 7))])]\<close>
    by (simp add: onData_def drain.simps Let_def indexOf_def slice_def slice_from_def
        trim_def is_ws_def newline_def lit_def set_buffer_def sample_parse_def handleMessage_def
        MCPServer_onRequest_def destructure_def Map_get_def by_reference_def send_def
        method_not_found_def plus_string_def prepend_def and_then_def sample_server_def
        createServer_def setHandler_def Map_set_def MCPServer_new_def JsonRpcStdio_new_def)
  from invalid_line_logged
         [where srv = sample_server and pre = \<open>lit ''{"id":2,"method":"nope","params":{}}\<newline>''\<close>
            and l = "lit '' {oops''" and parse = sample_parse and toStr = "\<lambda>v. None"
            and rest = \<open>lit ''{"id":7}\<newline>''\<close>, OF a b c d]
       a b c d e
  show ?thesis
    by (intro conjI)
qed

text \<open>
  C8. A whole line that is empty after trimming contributes nothing: the call gives the
  same effects, the same state and the same outcome as on the input without that line.
\<close>

theorem blank_line_skipped:
  assumes "buffer (transport srv) @ pre = [] \<or> last (buffer (transport srv) @ pre) = newline"
    and "newline \<notin> set l" and "trim l = []"
  shows "onData parse toStr srv (pre @ l @ newline # rest) = onData parse toStr srv (pre @ rest)"
proof -
  have "and_then (onData parse toStr srv pre) (\<lambda>s. onData parse toStr s (l @ newline # rest)) =
        and_then (onData parse toStr srv pre) (\<lambda>s. onData parse toStr s rest)"
  proof (rule and_then_cong_result)
    fix es s
    assume "onData parse toStr srv pre = (es, Inr s)"
    with assms(1) have "buffer (transport s) = []"
      by (rule onData_at_line_start)
    with assms(2,3) show "onData parse toStr s (l @ newline # rest) = onData parse toStr s rest"
      by (simp add: onData_first_line)
  qed
  then show ?thesis
    using onData_append [of parse toStr srv pre "l @ newline # rest"]
      onData_append [of parse toStr srv pre rest] by simp
qed

theorem blank_line_skipped_witness:
  \<open>(buffer (transport sample_server) @ lit ''{"id":2,"method":"nope","params":{}}\<newline>'' = []
      \<or> last (buffer (transport sample_server) @ lit ''{"id":2,"method":"nope","params":{}}\<newline>'') = newline)
   \<and> newline \<notin> set [0x20, 0x09, 0x0D]
   \<and> trim [0x20, 0x09, 0x0D] = []
   \<and> onData sample_parse (\<lambda>v. None) sample_server
        (lit ''{"id":2,"method":"nope","params":{}}\<newline>'' @ [0x20, 0x09, 0x0D] @ newline # lit ''{"id":7}\<newline>'') =
      onData sample_parse (\<lambda>v. None) sample_server
        (lit ''{"id":2,"method":"nope","params":{}}\<newline>'' @ lit ''{"id":7}\<newline>'')
   \<and> fst (onData sample_parse (\<lambda>v. None) sample_server
        (lit ''{"id":2,"method":"nope","params":{}}\<newline>'' @ [0x20, 0x09, 0x0D] @ newline # lit ''{"id":7}\<newline>'')) =
       [HandleMessage (JObj [(lit ''id'', JNum (Fin 2)), (lit ''method'', JStr (lit ''nope'')),
                             (lit ''params'', JObj [])]),
        StdoutWrite (JObj [(lit ''jsonrpc'', JStr (lit ''2.0'')), (lit ''id'', JNum (Fin 2)),
                           (lit ''error'', JObj [(lit ''code'', JNum (Fin (- 32601))),
                                                 (lit ''message'', JStr (lit ''Method not found: nope''))])]),
        HandleMessage (JObj [(lit ''id'', JNum (Fin 7))])]\<close>
proof -
  have a: \<open>buffer (transport sample_server) @ lit ''{"id":2,"method":"nope","params":{}}\<newline>'' = []
      \<or> last (buffer (transport sample_server) @ lit ''{"id":2,"method":"nope","params":{}}\<newline>'') = newline\<close>
    by (simp add: sample_server_transport lit_def newline_def)
  have b: "newline \<notin> set [0x20, 0x09, 0x0D]"
    by (simp add: newline_def)
  have c: "trim [0x20, 0x09, 0x0D] = []"
    by (simp add: trim_def is_ws_def)
  have e: \<open>fst (onData sample_parse (\<lambda>v. None) sample_server
        (lit ''{"id":2,"method":"nope","params":{}}\<newline>'' @ [0x20, 0x09, 0x0D] @ newline # lit ''{"id":7}\<newline>'')) =
       [HandleMessage (JObj [(lit ''id'', JNum (Fin 2)), (lit ''method'', JStr (lit ''nope'')),
                             (lit ''params'', JObj [])]),
        StdoutWrite (JObj [(lit ''jsonrpc'', JStr (lit ''2.0'')), (lit ''id'', JNum (Fin 2)),
                           (lit ''error'', JObj [(lit ''code'', JNum (Fin (- 32601))),
                                                 (lit ''message'', JStr (lit ''Method not found: nope''))])]),
        HandleMessage (JObj [(lit ''id'', JNum (Fin 7))])]\<close>
    by (simp add: onData_def drain.simps Let_def indexOf_def slice_def slice_from_def
        trim_def is_ws_def newline_def lit_def set_buffer_def sample_parse_def handleMessage_def
        MCPServer_onRequest_def destructure_def Map_get_def by_reference_def send_def
        method_not_found_def plus_string_def prepend_def and_then_def sample_server_def
        createServer_def setHandler_def Map_set_def MCPServer_new_def JsonRpcStdio_new_def)
  from blank_line_skipped
         [where srv = sample_server and pre = \<open>lit ''{"id":2,"method":"nope","params":{}}\<newline>''\<close>
            and l = "[0x20, 0x09, 0x0D]" and parse = sample_parse and toStr = "\<lambda>v. None"
            and rest = \<open>lit ''{"id":7}\<newline>''\<close>, OF a b c]
       a b c e
  show ?thesis
    by (intro conjI)
qed

section \<open>Shape of a reply\<close>

text \<open>
  C9. When no registered handler resolves to \<^verbatim>\<open>undefined\<close> (every handler that
  \<^verbatim>\<open>createServer\<close> registers returns an object), every reply that \<^verbatim>\<open>_onRequest\<close> sends
  carries a result or an error on the wire, and never both.
\<close>

theorem reply_result_or_error:
  assumes "\<And>k fn args. Map_get (handlers srv) k = Some fn \<Longrightarrow> fn args \<noteq> Returned JUndefined"
    and "StdoutWrite obj \<in> set (fst (MCPServer_onRequest toStr srv msg))"
  shows "(carries obj (lit ''result'') \<or> carries obj (lit ''error''))
       \<and> \<not> (carries obj (lit ''result'') \<and> carries obj (lit ''error''))"
proof (cases "destructure msg")
  case (Inl err)
  with assms(2) show ?thesis
    by (simp add: MCPServer_onRequest_def)
next
  case (Inr t)
  then obtain i m p where d: "destructure msg = Inr (i, m, p)"
    by (cases t) auto
  show ?thesis
  proof (cases "Map_get (handlers srv) m")
    case None
    with d assms(2) field_names_distinct show ?thesis
      by (auto simp: MCPServer_onRequest_def send_def carries_def method_not_found_def
          split: sum.splits)
  next
    case (Some fn)
    let ?args = "if truthy p then p else JObj []"
    from assms(1) [OF Some] have defined: "fn ?args \<noteq> Returned JUndefined" .
    with d Some assms(2) field_names_distinct show ?thesis
      by (auto simp: MCPServer_onRequest_def send_def Let_def carries_def success_reply_def
          internal_error_def split: outcome.splits)
  qed
qed

theorem reply_result_or_error_witness:
  "StdoutWrite (success_reply (JNum (Fin 5)) (JObj [(lit ''error'', JStr (lit ''Unknown tool''))]))
     \<in> set (fst (MCPServer_onRequest (\<lambda>v. None) sample_server
          (JObj [(lit ''id'', JNum (Fin 5)), (lit ''method'', JStr (lit ''tools/call'')),
                 (lit ''params'', JObj [(lit ''name'', JStr (lit ''drop''))])])))
   \<and> carries (success_reply (JNum (Fin 5)) (JObj [(lit ''error'', JStr (lit ''Unknown tool''))])) (lit ''result'')
   \<and> \<not> carries (success_reply (JNum (Fin 5)) (JObj [(lit ''error'', JStr (lit ''Unknown tool''))])) (lit ''error'')"
proof -
  let ?obj = "success_reply (JNum (Fin 5)) (JObj [(lit ''error'', JStr (lit ''Unknown tool''))])"
  have defined: "fn args \<noteq> Returned JUndefined"
    if "Map_get (handlers sample_server) k = Some fn" for k fn args
    using that
    by (auto simp: sample_server_def createServer_def Let_def setHandler_def Map_set_def
        sample_business_def Map_get_def MCPServer_new_def initialize_handler_def
        initialized_handler_def split: if_splits)
  have m: "StdoutWrite ?obj
     \<in> set (fst (MCPServer_onRequest (\<lambda>v. None) sample_server
          (JObj [(lit ''id'', JNum (Fin 5)), (lit ''method'', JStr (lit ''tools/call'')),
                 (lit ''params'', JObj [(lit ''name'', JStr (lit ''drop''))])])))"
    by (simp add: MCPServer_onRequest_def destructure_def send_def Let_def
        sample_server_def createServer_def setHandler_def Map_set_def sample_business_def
        Map_get_def by_reference_def MCPServer_new_def lit_def)
  have c: "carries ?obj (lit ''result'')"
    by (simp add: carries_def success_reply_def lit_def)
  have "(carries ?obj (lit ''result'') \<or> carries ?obj (lit ''error''))
        \<and> \<not> (carries ?obj (lit ''result'') \<and> carries ?obj (lit ''error''))"
  proof (rule reply_result_or_error [where srv = sample_server])
    fix k fn args
    assume "Map_get (handlers sample_server) k = Some fn"
    then show "fn args \<noteq> Returned JUndefined"
      by (rule defined)
  next
    show "StdoutWrite ?obj
       \<in> set (fst (MCPServer_onRequest (\<lambda>v. None) sample_server
            (JObj [(lit ''id'', JNum (Fin 5)), (lit ''method'', JStr (lit ''tools/call'')),
                   (lit ''params'', JObj [(lit ''name'', JStr (lit ''drop''))])])))"
      by (rule m)
  qed
  with m c show ?thesis
    by blast
qed

section \<open>The buffer between calls\<close>

text \<open>
  C10. After any sequence of calls that return, starting from the constructor's empty
  buffer, the buffer has no newline and is the part of the input received so far that
  follows its last newline (all of it when there is none).
\<close>

theorem buffer_after_ingest:
  assumes "buffer (transport srv) = []"
    and "feed parse toStr srv chunks = (es, Inr srv')"
  shows "newline \<notin> set (buffer (transport srv'))
       \<and> buffer (transport srv') = after_last newline (concat chunks)"
proof -
  from assms(1) have "newline \<notin> set (buffer (transport srv))"
    by simp
  from feed_buffer [OF this assms(2)] assms(1)
  have "buffer (transport srv') = after_last newline (concat chunks)"
    by simp
  then show ?thesis
    by (simp add: after_last_free)
qed

theorem buffer_after_ingest_witness:
  \<open>buffer (transport sample_server) = []
   \<and> feed sample_parse (\<lambda>v. None) sample_server [lit ''{"id":7}\<newline>{"id"'', lit '':7''] =
       ([HandleMessage (JObj [(lit ''id'', JNum (Fin 7))])],
        Inr (set_buffer sample_server (lit ''{"id":7'')))
   \<and> newline \<notin> set (buffer (transport (set_buffer sample_server (lit ''{"id":7''))))
   \<and> buffer (transport (set_buffer sample_server (lit ''{"id":7''))) =
       after_last newline (concat [lit ''{"id":7}\<newline>{"id"'', lit '':7''])\<close>
proof -
  have a: "buffer (transport sample_server) = []"
    by (simp add: sample_server_transport)
  have b: \<open>feed sample_parse (\<lambda>v. None) sample_server [lit ''{"id":7}\<newline>{"id"'', lit '':7''] =
       ([HandleMessage (JObj [(lit ''id'', JNum (Fin 7))])],
        Inr (set_buffer sample_server (lit ''{"id":7'')))\<close>
    by (simp add: onData_def drain.simps Let_def indexOf_def slice_def slice_from_def
        trim_def is_ws_def newline_def lit_def set_buffer_def sample_parse_def handleMessage_def
        MCPServer_onRequest_def destructure_def Map_get_def by_reference_def send_def
        method_not_found_def plus_string_def prepend_def and_then_def sample_server_def
        createServer_def setHandler_def Map_set_def MCPServer_new_def JsonRpcStdio_new_def)
  from buffer_after_ingest [OF a b] a b show ?thesis
    by blast
qed


end
